theory Spec2Isabelle
  imports Main
begin

section \<open>Strings and constants of the standard library\<close>

text \<open>
  A Go string is a sequence of bytes, here a \<^typ>\<open>string\<close>. The functions of package
  \<^verbatim>\<open>strings\<close> that \<^verbatim>\<open>routeKey\<close> calls are modelled on the bytes: \<^verbatim>\<open>ToLower\<close> maps
  the letters \<^verbatim>\<open>A\<close> to \<^verbatim>\<open>Z\<close> to lower case, \<^verbatim>\<open>TrimSpace\<close> drops the leading and trailing
  bytes of \<^verbatim>\<open>asciiSpace\<close> (tab, line feed, vertical tab, form feed, carriage return,
  space). Bytes outside ASCII are left as they are.
\<close>

definition isSpace :: "char \<Rightarrow> bool" where
  "isSpace c =
     (c = CHR 0x09 \<or> c = CHR 0x0A \<or> c = CHR 0x0B \<or> c = CHR 0x0C \<or> c = CHR 0x0D \<or> c = CHR '' '')"

definition toLowerByte :: "char \<Rightarrow> char" where
  "toLowerByte c =
     (let n = (of_char c :: nat) in if 65 \<le> n \<and> n \<le> 90 then char_of (n + 32) else c)"

definition ToLower :: "string \<Rightarrow> string" where
  "ToLower s = map toLowerByte s"

definition TrimSpace :: "string \<Rightarrow> string" where
  "TrimSpace s = rev (dropWhile isSpace (rev (dropWhile isSpace s)))"

text \<open>The status codes of \<^verbatim>\<open>net/http\<close> the package uses, and the text of status 500.\<close>

definition StatusNoContent :: int where
  "StatusNoContent = 204"

definition StatusNotFound :: int where
  "StatusNotFound = 404"

definition StatusInternalServerError :: int where
  "StatusInternalServerError = 500"

definition StatusText500 :: string where
  "StatusText500 = ''Internal Server Error''"

section \<open>Request, response and context\<close>

record Identity =
  idAPIKey :: string
  idUserArn :: string
  idCognitoAuthenticationType :: string
  idCaller :: string
  idUserAgent :: string
  idUser :: string
  idCognitoIdentityPoolID :: string
  idCognitoIdentityID :: string
  idCognitoAuthenticationProvider :: string
  idSourceIP :: string
  idAccountID :: string

record RequestContext =
  rcResourceID :: string
  rcAPIID :: string
  rcResourcePath :: string
  rcHTTPMethod :: string
  rcRequestID :: string
  rcAccountID :: string
  rcIdentity :: Identity
  rcStage :: string

text \<open>
  The fields of \<^verbatim>\<open>Request\<close> carry the prefix \<open>rq\<close>, since \<^verbatim>\<open>response\<close> and \<^verbatim>\<open>Route\<close>
  have fields of the same names. A Go map that is \<^verbatim>\<open>nil\<close> reads like the empty map.
\<close>

record Request =
  rqRequestContext :: RequestContext
  rqHTTPMethod :: string
  rqPath :: string
  rqResource :: string
  rqHeaders :: "string \<rightharpoonup> string"
  rqQueryStringParameters :: "string \<rightharpoonup> string"
  rqPathParameters :: "string \<rightharpoonup> string"
  rqStageVariables :: "string \<rightharpoonup> string"
  rqBody :: string

text \<open>
  \<^verbatim>\<open>Headers\<close> of a \<^verbatim>\<open>response\<close> is a Go map, which may be \<^verbatim>\<open>nil\<close>: \<open>None\<close> is the
  \<^verbatim>\<open>nil\<close> map, \<open>Some m\<close> a map that is present. \<^verbatim>\<open>EmptyHeaders\<close> is a variable of the
  package, set to an empty map and assigned nowhere in it: here a constant.
\<close>

record response =
  StatusCode :: int
  Headers :: "(string \<rightharpoonup> string) option"
  Body :: string

definition EmptyHeaders :: "(string \<rightharpoonup> string) option" where
  "EmptyHeaders = Some Map.empty"

text \<open>
  \<^verbatim>\<open>Context\<close>: the request, and the response a handler has set (\<open>None\<close> is the \<^verbatim>\<open>nil\<close>
  pointer).
\<close>

record Context =
  Request :: Request
  response :: "response option"

text \<open>
  An \<^verbatim>\<open>error\<close> a handler returns is a \<^verbatim>\<open>*HTTPError\<close> with its code and message, or
  any other error, of which the package reads only the text \<^verbatim>\<open>Error()\<close>.
\<close>

datatype error = HTTPError int string | OtherError string

section \<open>JSON encoding of a body\<close>

text \<open>
  \<^verbatim>\<open>status\<close> hands its body, a Go value of any type, to \<^verbatim>\<open>json.Marshal\<close> of the standard
  library. The values are modelled as a datatype: null, booleans, integers, strings,
  arrays and objects (a struct's fields in their order, a map's entries by sorted key),
  and \<open>JUnsupported\<close> for a value the encoder refuses (a channel, a function), for which
  it returns an error.

  A string is encoded as the encoder does for text: between double quotes, with a
  backslash before a double quote and a backslash, the short escapes for backspace, form
  feed, line feed, carriage return and tab, and \<^verbatim>\<open>\u00XX\<close> for the other control bytes and
  for \<^verbatim>\<open><\<close>, \<^verbatim>\<open>>\<close> and \<^verbatim>\<open>&\<close>. Every other byte is copied, as the encoder does for
  text in UTF-8 (its replacement of bytes that are not UTF-8 is left out).
\<close>

datatype jvalue =
    JNull
  | JBool bool
  | JInt int
  | JString string
  | JArray "jvalue list"
  | JObject "(string \<times> jvalue) list"
  | JUnsupported

definition hexDigit :: "nat \<Rightarrow> char" where
  "hexDigit n = ''0123456789abcdef'' ! (n mod 16)"

definition encodeByte :: "char \<Rightarrow> string" where
  "encodeByte c =
     (if c = CHR 0x5C \<or> c = CHR 0x22 then [CHR 0x5C, c]
      else if c = CHR 0x08 then [CHR 0x5C, CHR ''b'']
      else if c = CHR 0x0C then [CHR 0x5C, CHR ''f'']
      else if c = CHR 0x0A then [CHR 0x5C, CHR ''n'']
      else if c = CHR 0x0D then [CHR 0x5C, CHR ''r'']
      else if c = CHR 0x09 then [CHR 0x5C, CHR ''t'']
      else if (of_char c :: nat) < 32 \<or> c = CHR ''<'' \<or> c = CHR ''>'' \<or> c = CHR ''&''
        then [CHR 0x5C, CHR ''u'', CHR ''0'', CHR ''0'',
              hexDigit ((of_char c :: nat) div 16), hexDigit (of_char c :: nat)]
      else [c])"

definition encodeString :: "string \<Rightarrow> string" where
  "encodeString s = CHR 0x22 # concat (map encodeByte s) @ [CHR 0x22]"

function natDec :: "nat \<Rightarrow> string" where
  "natDec n =
     (if n < 10 then [''0123456789'' ! n] else natDec (n div 10) @ [''0123456789'' ! (n mod 10)])"
  by pat_completeness auto
termination
  by (relation "measure id") auto

definition intDec :: "int \<Rightarrow> string" where
  "intDec i = (if i < 0 then CHR ''-'' # natDec (nat (- i)) else natDec (nat i))"

fun json_Marshal :: "jvalue \<Rightarrow> string + string"
  and marshalElems :: "jvalue list \<Rightarrow> string + string"
  and marshalFields :: "(string \<times> jvalue) list \<Rightarrow> string + string" where
  "json_Marshal JNull = Inr ''null''"
| "json_Marshal (JBool b) = Inr (if b then ''true'' else ''false'')"
| "json_Marshal (JInt i) = Inr (intDec i)"
| "json_Marshal (JString s) = Inr (encodeString s)"
| "json_Marshal (JArray vs) =
     (case marshalElems vs of Inl e \<Rightarrow> Inl e | Inr b \<Rightarrow> Inr (''['' @ b @ '']''))"
| "json_Marshal (JObject fs) =
     (case marshalFields fs of Inl e \<Rightarrow> Inl e | Inr b \<Rightarrow> Inr (''{'' @ b @ ''}''))"
| "json_Marshal JUnsupported = Inl ''json: unsupported type''"
| "marshalElems [] = Inr []"
| "marshalElems [v] = json_Marshal v"
| "marshalElems (v # w # vs) =
     (case json_Marshal v of
        Inl e \<Rightarrow> Inl e
      | Inr a \<Rightarrow>
          (case marshalElems (w # vs) of Inl e \<Rightarrow> Inl e | Inr b \<Rightarrow> Inr (a @ '','' @ b)))"
| "marshalFields [] = Inr []"
| "marshalFields [(k, v)] =
     (case json_Marshal v of Inl e \<Rightarrow> Inl e | Inr a \<Rightarrow> Inr (encodeString k @ '':'' @ a))"
| "marshalFields ((k, v) # f # fs) =
     (case json_Marshal v of
        Inl e \<Rightarrow> Inl e
      | Inr a \<Rightarrow>
          (case marshalFields (f # fs) of
             Inl e \<Rightarrow> Inl e
           | Inr b \<Rightarrow> Inr (encodeString k @ '':'' @ a @ '','' @ b)))"

section \<open>The operations of a context\<close>

text \<open>
  A method of \<^verbatim>\<open>*Context\<close> takes the context and returns its error (\<open>None\<close> is \<^verbatim>\<open>nil\<close>)
  with the context as the method leaves it.
\<close>

definition QueryParam :: "Context \<Rightarrow> string \<Rightarrow> string" where
  "QueryParam ctx n = (case rqQueryStringParameters (Request ctx) n of None \<Rightarrow> [] | Some v \<Rightarrow> v)"

definition Param :: "Context \<Rightarrow> string \<Rightarrow> string" where
  "Param ctx n = (case rqPathParameters (Request ctx) n of None \<Rightarrow> [] | Some v \<Rightarrow> v)"

definition StageVar :: "Context \<Rightarrow> string \<Rightarrow> string" where
  "StageVar ctx n = (case rqStageVariables (Request ctx) n of None \<Rightarrow> [] | Some v \<Rightarrow> v)"

definition Header :: "Context \<Rightarrow> string \<Rightarrow> string" where
  "Header ctx n = (case rqHeaders (Request ctx) n of None \<Rightarrow> [] | Some v \<Rightarrow> v)"

definition status ::
  "Context \<Rightarrow> int \<Rightarrow> jvalue \<Rightarrow> (string \<rightharpoonup> string) option \<Rightarrow> error option \<times> Context" where
  "status ctx st body headers =
     (case json_Marshal body of
        Inl err \<Rightarrow>
          (Some (OtherError (''lambdaproxy: unable to convert body to json: '' @ err)), ctx)
      | Inr b \<Rightarrow>
          (None, ctx\<lparr>response := Some \<lparr>StatusCode = st, Headers = headers, Body = b\<rparr>\<rparr>))"

definition NoContent :: "Context \<Rightarrow> int \<Rightarrow> error option \<times> Context" where
  "NoContent ctx st = status ctx st (JString []) EmptyHeaders"

definition String :: "Context \<Rightarrow> int \<Rightarrow> string \<Rightarrow> error option \<times> Context" where
  "String ctx st body = status ctx st (JString body) EmptyHeaders"


definition Continue :: "Context \<Rightarrow> error option \<times> Context" where
  "Continue ctx = (None, ctx)"

text \<open>
  \<^verbatim>\<open>Bind\<close> decodes the body into the target with \<^verbatim>\<open>json.Unmarshal\<close> and then calls
  \<^verbatim>\<open>mergo.Map\<close> on the target and the query parameters. Both work by reflection on a
  target of the caller's type and neither is code of this package: they are the parameters
  \<open>unmarshal\<close> and \<open>mergoMap\<close>, each returning its error (\<open>None\<close> is \<^verbatim>\<open>nil\<close>) and the
  target as it leaves it.
\<close>

definition Bind ::
  "(string \<Rightarrow> 'm \<Rightarrow> string option \<times> 'm) \<Rightarrow> ('m \<Rightarrow> (string \<rightharpoonup> string) \<Rightarrow> string option \<times> 'm)
     \<Rightarrow> Context \<Rightarrow> 'm \<Rightarrow> error option \<times> 'm" where
  "Bind unmarshal mergoMap ctx m =
     (case unmarshal (rqBody (Request ctx)) m of
        (Some err, m') \<Rightarrow>
          (Some (OtherError (''lambdaproxy: unable to bind body to struct: '' @ err)), m')
      | (None, m') \<Rightarrow>
          (case mergoMap m' (rqQueryStringParameters (Request ctx)) of
             (Some err, m'') \<Rightarrow>
               (Some (OtherError (''lambdaproxy: unable to bind query params to struct: '' @ err)),
                m'')
           | (None, m'') \<Rightarrow> (None, m'')))"

section \<open>Handlers and the executor\<close>

text \<open>
  A handler is Go code of the caller. It receives the pointer to the context, may change
  what it points to, may act on the rest of the process, and returns an error or \<^verbatim>\<open>nil\<close>.
  The rest of the process is a record of the lines written with \<^verbatim>\<open>log.Printf\<close> (their
  text without the time stamp) and a state \<open>'w\<close> of the caller's own. A handler is a
  function from the context and process before the call to the error and the context and
  process after it. A handler that panics or never returns has no such function; a chain
  with one is not covered.
\<close>

record 'w proc =
  logs :: "string list"
  world :: 'w

type_synonym 'w hstate = "Context \<times> 'w proc"

type_synonym 'w HandlerFunc = "'w hstate \<Rightarrow> error option \<times> 'w hstate"

definition logPrintf :: "string \<Rightarrow> 'w proc \<Rightarrow> 'w proc" where
  "logPrintf line p = p\<lparr>logs := logs p @ [line]\<rparr>"

text \<open>
  The response of status 500 that the package builds at three places, and the response
  of status 204 that \<^verbatim>\<open>Handle\<close> and \<^verbatim>\<open>Serve\<close> start the executor with.
\<close>

definition internalError :: response where
  "internalError =
     \<lparr>StatusCode = StatusInternalServerError, Headers = EmptyHeaders, Body = StatusText500\<rparr>"

definition noContentResponse :: response where
  "noContentResponse = \<lparr>StatusCode = StatusNoContent, Headers = EmptyHeaders, Body = []\<rparr>"

text \<open>
  \<^verbatim>\<open>execHandlerFuncs\<close>: the loop over the handlers. Its second result in Go is always
  \<^verbatim>\<open>nil\<close>; the model returns the response with the context and process the loop leaves.
\<close>

fun execHandlerFuncs ::
  "response \<Rightarrow> 'w hstate \<Rightarrow> 'w HandlerFunc list \<Rightarrow> response \<times> 'w hstate" where
  "execHandlerFuncs resp s [] = (resp, s)"
| "execHandlerFuncs resp s (hf # h) =
     (case hf s of
        (Some (HTTPError code message), s') \<Rightarrow>
          (\<lparr>StatusCode = code, Headers = EmptyHeaders, Body = message\<rparr>, s')
      | (Some (OtherError msg), (hctx, p)) \<Rightarrow>
          (internalError,
           (hctx,
            logPrintf (''[ERROR] lambdaProxy.Handle: error processing function handler: '' @ msg) p))
      | (None, (hctx, p)) \<Rightarrow>
          execHandlerFuncs (case response hctx of None \<Rightarrow> resp | Some r \<Rightarrow> r) (hctx, p) h)"

text \<open>
  \<^verbatim>\<open>notFoundHandler\<close>: the default handler of a router. It encodes the context with
  \<^verbatim>\<open>json.Marshal\<close>, here the parameter \<open>marshalContext\<close> (\<open>Inl\<close> its error), logs the text
  and answers with \<^verbatim>\<open>NoContent\<close>.
\<close>

definition notFoundHandler :: "(Context \<Rightarrow> string + string) \<Rightarrow> 'w HandlerFunc" where
  "notFoundHandler marshalContext s =
     (case s of (c, p) \<Rightarrow>
        (case marshalContext c of
           Inl err \<Rightarrow> (Some (OtherError (''DumpContext: '' @ err)), (c, p))
         | Inr b \<Rightarrow>
             (case NoContent c StatusNotFound of
                (e, c') \<Rightarrow> (e, (c', logPrintf (''[DEBUG] Context: '' @ [CHR 0x0A] @ b) p)))))"

text \<open>
  \<^verbatim>\<open>Handle\<close>: the function it registers with the event source, run once for an event.
  \<open>unmarshal\<close> is \<^verbatim>\<open>json.Unmarshal\<close> of the event into a \<^verbatim>\<open>Request\<close> (\<open>Inl\<close> its error).
\<close>

definition Handle ::
  "'w HandlerFunc list \<Rightarrow> (string \<Rightarrow> string + Request) \<Rightarrow> string \<Rightarrow> 'w proc
     \<Rightarrow> response \<times> 'w proc" where
  "Handle h unmarshal event p =
     (case unmarshal event of
        Inl err \<Rightarrow>
          (internalError,
           logPrintf (''[ERROR] lambdaProxy.Handle: unable to unmarshal lambda event json: '' @ err) p)
      | Inr req \<Rightarrow>
          (case execHandlerFuncs noContentResponse (\<lparr>Request = req, response = None\<rparr>, p) h of
             (resp, (hCtx, p')) \<Rightarrow> (resp, p')))"

section \<open>The router\<close>

record 'w Route =
  HTTPMethod :: string
  ResourcePath :: string
  HandlerFuncs :: "'w HandlerFunc list"

definition routeKey :: "string \<Rightarrow> string \<Rightarrow> string" where
  "routeKey method path = ToLower (TrimSpace method @ '':'' @ TrimSpace path)"

text \<open>
  The field \<^verbatim>\<open>notFoundHandler\<close> of a \<^verbatim>\<open>router\<close> is \<open>rNotFoundHandler\<close> here, the name
  without the prefix being the function's.
\<close>

record 'w router =
  routes :: "string \<rightharpoonup> 'w Route"
  rNotFoundHandler :: "'w HandlerFunc"

definition Add :: "'w router \<Rightarrow> string \<Rightarrow> string \<Rightarrow> 'w HandlerFunc list \<Rightarrow> 'w router" where
  "Add r method resourcePath h =
     r\<lparr>routes := (routes r)(routeKey method resourcePath \<mapsto>
          \<lparr>HTTPMethod = method, ResourcePath = resourcePath, HandlerFuncs = h\<rparr>)\<rparr>"

definition GET :: "'w router \<Rightarrow> string \<Rightarrow> 'w HandlerFunc list \<Rightarrow> 'w router" where
  "GET r resourcePath h = Add r ''get'' resourcePath h"

definition PUT :: "'w router \<Rightarrow> string \<Rightarrow> 'w HandlerFunc list \<Rightarrow> 'w router" where
  "PUT r resourcePath h = Add r ''put'' resourcePath h"

definition POST :: "'w router \<Rightarrow> string \<Rightarrow> 'w HandlerFunc list \<Rightarrow> 'w router" where
  "POST r resourcePath h = Add r ''post'' resourcePath h"

definition DELETE :: "'w router \<Rightarrow> string \<Rightarrow> 'w HandlerFunc list \<Rightarrow> 'w router" where
  "DELETE r resourcePath h = Add r ''delete'' resourcePath h"

definition HEAD :: "'w router \<Rightarrow> string \<Rightarrow> 'w HandlerFunc list \<Rightarrow> 'w router" where
  "HEAD r resourcePath h = Add r ''head'' resourcePath h"

definition SetNotFoundHandler :: "'w router \<Rightarrow> 'w HandlerFunc \<Rightarrow> 'w router" where
  "SetNotFoundHandler r h = r\<lparr>rNotFoundHandler := h\<rparr>"

definition NewRouter :: "(Context \<Rightarrow> string + string) \<Rightarrow> 'w router" where
  "NewRouter marshalContext =
     \<lparr>routes = Map.empty, rNotFoundHandler = notFoundHandler marshalContext\<rparr>"

text \<open>\<^verbatim>\<open>Serve\<close>: the function it registers with the event source, run once for an event.\<close>

definition Serve ::
  "'w router \<Rightarrow> (string \<Rightarrow> string + Request) \<Rightarrow> string \<Rightarrow> 'w proc \<Rightarrow> response \<times> 'w proc" where
  "Serve r unmarshal event p =
     (case unmarshal event of
        Inl err \<Rightarrow>
          (internalError,
           logPrintf
             (''[ERROR] lambdaProxy.Router.Serve: unable to unmarshal lambda event json: '' @ err) p)
      | Inr req \<Rightarrow>
          (case
             (case routes r (routeKey (rqHTTPMethod req) (rqResource req)) of
                None \<Rightarrow>
                  execHandlerFuncs noContentResponse (\<lparr>Request = req, response = None\<rparr>, p)
                    [rNotFoundHandler r]
              | Some rt \<Rightarrow>
                  if length (HandlerFuncs rt) = 0
                  then execHandlerFuncs noContentResponse (\<lparr>Request = req, response = None\<rparr>, p)
                         [rNotFoundHandler r]
                  else execHandlerFuncs noContentResponse (\<lparr>Request = req, response = None\<rparr>, p)
                         (HandlerFuncs rt))
           of (resp, (hCtx, p')) \<Rightarrow> (resp, p')))"

section \<open>What a run of a chain shows\<close>

text \<open>
  The states a chain goes through when each handler is called on the state the one before
  it left: \<open>chain_states s h\<close> lists the state after each handler, \<open>chain_final\<close> is the
  last of them (the start for no handler), \<open>chain_ok\<close> says that every handler returned
  \<^verbatim>\<open>nil\<close>, and \<open>responses_set\<close> lists the responses the context carried after each handler
  that left one.
\<close>

primrec chain_states :: "'w hstate \<Rightarrow> 'w HandlerFunc list \<Rightarrow> 'w hstate list" where
  "chain_states s [] = []"
| "chain_states s (hf # h) = snd (hf s) # chain_states (snd (hf s)) h"

definition chain_final :: "'w hstate \<Rightarrow> 'w HandlerFunc list \<Rightarrow> 'w hstate" where
  "chain_final s h = last (s # chain_states s h)"

primrec chain_ok :: "'w hstate \<Rightarrow> 'w HandlerFunc list \<Rightarrow> bool" where
  "chain_ok s [] = True"
| "chain_ok s (hf # h) = (fst (hf s) = None \<and> chain_ok (snd (hf s)) h)"

definition responses_set :: "'w hstate \<Rightarrow> 'w HandlerFunc list \<Rightarrow> response list" where
  "responses_set s h = List.map_filter (\<lambda>t. response (fst t)) (chain_states s h)"

text \<open>A handler that only calls a method of the context, as \<^verbatim>\<open>return c.String(200, "x")\<close>.\<close>

definition ctxHandler :: "(Context \<Rightarrow> error option \<times> Context) \<Rightarrow> 'w HandlerFunc" where
  "ctxHandler f s = (case s of (c, p) \<Rightarrow> (case f c of (e, c') \<Rightarrow> (e, (c', p))))"

text \<open>
  A caller's handler is code of another package: the field \<^verbatim>\<open>response\<close> of the context is
  not exported, so such a handler changes it only through \<^verbatim>\<open>NoContent\<close>, \<^verbatim>\<open>String\<close> and
  \<^verbatim>\<open>JSON\<close>, or by overwriting the whole context with another one. \<open>headers_present\<close>
  says that the response of a context, if there is one, has a map as its headers, and
  \<open>keeps_headers\<close> that a handler leaves this so.
\<close>

definition headers_present :: "'w hstate \<Rightarrow> bool" where
  "headers_present s = (case response (fst s) of None \<Rightarrow> True | Some r \<Rightarrow> Headers r \<noteq> None)"

definition keeps_headers :: "'w HandlerFunc \<Rightarrow> bool" where
  "keeps_headers hf = (\<forall>s. headers_present s \<longrightarrow> headers_present (snd (hf s)))"

section \<open>Values for the examples\<close>

text \<open>The zero value of a \<^verbatim>\<open>Request\<close>, as \<^verbatim>\<open>new(Request)\<close> makes it, and a request for it.\<close>

definition emptyIdentity :: Identity where
  "emptyIdentity =
     \<lparr>idAPIKey = [], idUserArn = [], idCognitoAuthenticationType = [], idCaller = [],
      idUserAgent = [], idUser = [], idCognitoIdentityPoolID = [], idCognitoIdentityID = [],
      idCognitoAuthenticationProvider = [], idSourceIP = [], idAccountID = []\<rparr>"

definition emptyRequestContext :: RequestContext where
  "emptyRequestContext =
     \<lparr>rcResourceID = [], rcAPIID = [], rcResourcePath = [], rcHTTPMethod = [], rcRequestID = [],
      rcAccountID = [], rcIdentity = emptyIdentity, rcStage = []\<rparr>"

definition emptyRequest :: Request where
  "emptyRequest =
     \<lparr>rqRequestContext = emptyRequestContext, rqHTTPMethod = [], rqPath = [], rqResource = [],
      rqHeaders = Map.empty, rqQueryStringParameters = Map.empty, rqPathParameters = Map.empty,
      rqStageVariables = Map.empty, rqBody = []\<rparr>"

definition getItems :: Request where
  "getItems = emptyRequest\<lparr>rqHTTPMethod := ''get'', rqPath := ''/items'', rqResource := ''/items''\<rparr>"

text \<open>
  The process of the examples keeps in \<open>world\<close> the names of the handlers that ran.
  \<open>traced n f\<close> is a handler that notes its name \<open>n\<close> and returns what the method \<open>f\<close> of
  the context returns.
\<close>

definition proc0 :: "string list proc" where
  "proc0 = \<lparr>logs = [], world = []\<rparr>"

definition traced :: "string \<Rightarrow> (Context \<Rightarrow> error option \<times> Context) \<Rightarrow> string list HandlerFunc" where
  "traced n f s =
     (case s of (c, p) \<Rightarrow> (case f c of (e, c') \<Rightarrow> (e, (c', p\<lparr>world := world p @ [n]\<rparr>))))"

text \<open>
  An encoder of the context for the examples. What \<^verbatim>\<open>json.Marshal\<close> writes for a context
  only reaches the log; the examples take the text \<^verbatim>\<open>{}\<close> for it.
\<close>

definition dumpStub :: "Context \<Rightarrow> string + string" where
  "dumpStub c = Inr ''{}''"

section \<open>The executor\<close>

lemma responses_set_Nil: "responses_set s [] = []"
  by (simp add: responses_set_def List.map_filter_simps)

lemma responses_set_Cons:
  "responses_set s (hf # h) =
     (case response (fst (snd (hf s))) of
        None \<Rightarrow> responses_set (snd (hf s)) h
      | Some r \<Rightarrow> r # responses_set (snd (hf s)) h)"
  by (simp add: responses_set_def List.map_filter_simps split: option.splits)

lemma chain_final_Nil: "chain_final s [] = s"
  by (simp add: chain_final_def)

lemma chain_final_Cons: "chain_final s (hf # h) = chain_final (snd (hf s)) h"
  by (simp add: chain_final_def)

text \<open>
  A prefix of handlers that all return \<^verbatim>\<open>nil\<close> is run through: the loop goes on with the
  rest of the chain, from the state the prefix leaves and with the last response it set.
\<close>

lemma execHandlerFuncs_append:
  "chain_ok s pre \<Longrightarrow>
     execHandlerFuncs resp s (pre @ post) =
       execHandlerFuncs (last (resp # responses_set s pre)) (chain_final s pre) post"
proof (induction pre arbitrary: resp s)
  case Nil
  show ?case by (simp add: responses_set_Nil chain_final_Nil)
next
  case (Cons hf h)
  obtain c p where s': "snd (hf s) = (c, p)" by (cases "snd (hf s)")
  from Cons.prems have e: "fst (hf s) = None" and ok: "chain_ok (c, p) h"
    by (simp_all add: s')
  have hf: "hf s = (None, (c, p))" using e s' by (cases "hf s") simp
  show ?case
    using Cons.IH [OF ok] hf
    by (simp add: responses_set_Cons chain_final_Cons split: option.splits)
qed

text \<open>
  C1. When every handler of the chain returns no error, every handler runs, each on the
  state the one before it left (the state at the end is \<open>chain_final\<close>, the state after the
  last handler), and the executor returns the last response that the context carried after
  a handler, or the response it was started with when no handler left one. A handler that
  sets a response does not end the chain.
\<close>

theorem execHandlerFuncs_last_response_wins:
  assumes "chain_ok s h"
  shows "execHandlerFuncs resp s h = (last (resp # responses_set s h), chain_final s h)"
proof -
  have "execHandlerFuncs resp s (h @ []) =
      execHandlerFuncs (last (resp # responses_set s h)) (chain_final s h) []"
    using assms by (rule execHandlerFuncs_append)
  then show ?thesis by simp
qed

theorem execHandlerFuncs_last_response_wins_witness:
  "chain_ok (\<lparr>Request = emptyRequest, response = None\<rparr>, proc0)
     [traced ''h1'' (\<lambda>c. String c 200 ''one''), traced ''h2'' (\<lambda>c. String c 201 ''two'')]
   \<and> execHandlerFuncs noContentResponse (\<lparr>Request = emptyRequest, response = None\<rparr>, proc0)
       [traced ''h1'' (\<lambda>c. String c 200 ''one''), traced ''h2'' (\<lambda>c. String c 201 ''two'')] =
     (\<lparr>StatusCode = 201, Headers = Some Map.empty,
       Body = [CHR 0x22, CHR ''t'', CHR ''w'', CHR ''o'', CHR 0x22]\<rparr>,
      (\<lparr>Request = emptyRequest,
        response = Some \<lparr>StatusCode = 201, Headers = Some Map.empty,
          Body = [CHR 0x22, CHR ''t'', CHR ''w'', CHR ''o'', CHR 0x22]\<rparr>\<rparr>,
       \<lparr>logs = [], world = [''h1'', ''h2'']\<rparr>))"
proof -
  have ok: "chain_ok (\<lparr>Request = emptyRequest, response = None\<rparr>, proc0)
     [traced ''h1'' (\<lambda>c. String c 200 ''one''), traced ''h2'' (\<lambda>c. String c 201 ''two'')]"
    by (simp add: traced_def String_def status_def)
  show ?thesis
    using ok execHandlerFuncs_last_response_wins [OF ok, of noContentResponse]
    by (simp add: traced_def String_def status_def responses_set_def chain_final_def
        List.map_filter_simps encodeString_def encodeByte_def EmptyHeaders_def proc0_def)
qed

text \<open>The response the executor is started with by \<^verbatim>\<open>Handle\<close> and \<^verbatim>\<open>Serve\<close>.\<close>

lemma noContentResponse_eq:
  "noContentResponse = \<lparr>StatusCode = 204, Headers = Some Map.empty, Body = []\<rparr>"
  by (simp add: noContentResponse_def StatusNoContent_def EmptyHeaders_def)

lemma Handle_last_response_wins:
  assumes "unmarshal event = Inr req"
    and "chain_ok (\<lparr>Request = req, response = None\<rparr>, p) h"
  shows "fst (Handle h unmarshal event p) =
     last (noContentResponse # responses_set (\<lparr>Request = req, response = None\<rparr>, p) h)"
proof -
  have "execHandlerFuncs noContentResponse (\<lparr>Request = req, response = None\<rparr>, p) (h @ []) =
      execHandlerFuncs
        (last (noContentResponse # responses_set (\<lparr>Request = req, response = None\<rparr>, p) h))
        (chain_final (\<lparr>Request = req, response = None\<rparr>, p) h) []"
    using assms(2) by (rule execHandlerFuncs_append)
  then show ?thesis
    using assms(1) by (simp add: Handle_def case_prod_beta)
qed





section \<open>Route keys\<close>










section \<open>Registration and dispatch\<close>

lemma Serve_found:
  assumes "unmarshal event = Inr req"
    and "routes r (routeKey (rqHTTPMethod req) (rqResource req)) = Some rt"
    and "HandlerFuncs rt \<noteq> []"
  shows "Serve r unmarshal event p =
    (case execHandlerFuncs noContentResponse (\<lparr>Request = req, response = None\<rparr>, p)
            (HandlerFuncs rt)
     of (resp, (hCtx, p')) \<Rightarrow> (resp, p'))"
  using assms by (simp add: Serve_def)

lemma Serve_not_found:
  assumes "unmarshal event = Inr req"
    and "routes r (routeKey (rqHTTPMethod req) (rqResource req)) = None \<or>
         (\<exists>rt. routes r (routeKey (rqHTTPMethod req) (rqResource req)) = Some rt \<and>
            HandlerFuncs rt = [])"
  shows "Serve r unmarshal event p =
    (case execHandlerFuncs noContentResponse (\<lparr>Request = req, response = None\<rparr>, p)
            [rNotFoundHandler r]
     of (resp, (hCtx, p')) \<Rightarrow> (resp, p'))"
  using assms by (auto simp: Serve_def)

text \<open>
  C8. Adding a route under a method and path with the key of a route added before
  leaves the router as if the earlier route had never been added. A request with that key
  is answered by the executor on the new handlers alone (on the not-found handler if the
  new route has no handler): no handler of the earlier route is called.
\<close>

theorem Add_overwrites:
  assumes "routeKey m2 p2 = routeKey m1 p1"
    and "unmarshal event = Inr req"
    and "routeKey (rqHTTPMethod req) (rqResource req) = routeKey m1 p1"
  shows "Add (Add r m1 p1 h1) m2 p2 h2 = Add r m2 p2 h2
    \<and> routes (Add (Add r m1 p1 h1) m2 p2 h2) (routeKey m1 p1) =
        Some \<lparr>HTTPMethod = m2, ResourcePath = p2, HandlerFuncs = h2\<rparr>
    \<and> Serve (Add (Add r m1 p1 h1) m2 p2 h2) unmarshal event p =
        (case execHandlerFuncs noContentResponse (\<lparr>Request = req, response = None\<rparr>, p)
                (if h2 = [] then [rNotFoundHandler r] else h2)
         of (resp, (hCtx, p')) \<Rightarrow> (resp, p'))"
  using assms by (simp add: Add_def Serve_def)

theorem Add_overwrites_witness:
  "routeKey ''get'' '' /items '' = routeKey ''GET'' ''/items''
   \<and> routeKey (rqHTTPMethod getItems) (rqResource getItems) = routeKey ''GET'' ''/items''
   \<and> Serve
       (Add (Add (NewRouter dumpStub) ''GET'' ''/items'' [traced ''old'' (\<lambda>c. String c 200 ''old'')])
          ''get'' '' /items '' [traced ''new'' (\<lambda>c. String c 201 ''new'')])
       (\<lambda>ev. Inr getItems) [] proc0 =
     (\<lparr>StatusCode = 201, Headers = Some Map.empty,
       Body = [CHR 0x22, CHR ''n'', CHR ''e'', CHR ''w'', CHR 0x22]\<rparr>,
      \<lparr>logs = [], world = [''new'']\<rparr>)"
proof -
  have k: "routeKey ''get'' '' /items '' = routeKey ''GET'' ''/items''"
    by (simp add: routeKey_def ToLower_def toLowerByte_def TrimSpace_def isSpace_def char_of_def
        bit_Suc_0_iff)
  have q: "routeKey (rqHTTPMethod getItems) (rqResource getItems) = routeKey ''GET'' ''/items''"
    by (simp add: getItems_def routeKey_def ToLower_def toLowerByte_def TrimSpace_def isSpace_def
        char_of_def bit_Suc_0_iff)
  have u: "(\<lambda>ev. Inr getItems) [] = (Inr getItems :: string + Request)"
    by simp
  note s = Add_overwrites [where unmarshal = "\<lambda>ev. Inr getItems" and event = "[]"
      and r = "NewRouter dumpStub"
      and ?h1.0 = "[traced ''old'' (\<lambda>c. String c 200 ''old'')]"
      and ?h2.0 = "[traced ''new'' (\<lambda>c. String c 201 ''new'')]" and p = proc0,
      OF k u q, THEN conjunct2, THEN conjunct2]
  have e: "(case execHandlerFuncs noContentResponse (\<lparr>Request = getItems, response = None\<rparr>, proc0)
              (if [traced ''new'' (\<lambda>c. String c 201 ''new'')] = []
               then [rNotFoundHandler (NewRouter dumpStub)]
               else [traced ''new'' (\<lambda>c. String c 201 ''new'')])
       of (resp, (hCtx, p')) \<Rightarrow> (resp, p')) =
     (\<lparr>StatusCode = 201, Headers = Some Map.empty,
       Body = [CHR 0x22, CHR ''n'', CHR ''e'', CHR ''w'', CHR 0x22]\<rparr>,
      \<lparr>logs = [], world = [''new'']\<rparr>)"
    by (simp add: traced_def String_def status_def encodeString_def encodeByte_def
        EmptyHeaders_def proc0_def)
  show ?thesis
    by (intro conjI k q trans [OF s e])
qed

text \<open>
  C9. A request whose key has a route with no handler is served as the same request by the
  router without that route: in both the executor runs the chain of the one not-found
  handler of the router, the default one or the caller's, and the response is the one
  this chain gives.
\<close>

theorem Serve_zero_handlers:
  assumes "unmarshal event = Inr req"
    and "routes r (routeKey (rqHTTPMethod req) (rqResource req)) = Some rt"
    and "HandlerFuncs rt = []"
  shows "Serve r unmarshal event p =
      Serve (r\<lparr>routes := (routes r)(routeKey (rqHTTPMethod req) (rqResource req) := None)\<rparr>)
        unmarshal event p
    \<and> Serve r unmarshal event p =
        (case execHandlerFuncs noContentResponse (\<lparr>Request = req, response = None\<rparr>, p)
                [rNotFoundHandler r]
         of (resp, (hCtx, p')) \<Rightarrow> (resp, p'))"
  using assms by (simp add: Serve_def)

theorem Serve_zero_handlers_witness:
  "routes (Add (SetNotFoundHandler (NewRouter dumpStub) (traced ''nf'' (\<lambda>c. String c 404 ''no'')))
       ''GET'' ''/items'' [])
     (routeKey (rqHTTPMethod getItems) (rqResource getItems)) =
     Some \<lparr>HTTPMethod = ''GET'', ResourcePath = ''/items'', HandlerFuncs = []\<rparr>
   \<and> Serve
       (Add (SetNotFoundHandler (NewRouter dumpStub) (traced ''nf'' (\<lambda>c. String c 404 ''no'')))
          ''GET'' ''/items'' [])
       (\<lambda>ev. Inr getItems) [] proc0 =
     (\<lparr>StatusCode = 404, Headers = Some Map.empty,
       Body = [CHR 0x22, CHR ''n'', CHR ''o'', CHR 0x22]\<rparr>,
      \<lparr>logs = [], world = [''nf'']\<rparr>)"
proof -
  let ?r = "Add (SetNotFoundHandler (NewRouter dumpStub) (traced ''nf'' (\<lambda>c. String c 404 ''no'')))
       ''GET'' ''/items'' []"
  have rt: "routes ?r (routeKey (rqHTTPMethod getItems) (rqResource getItems)) =
      Some \<lparr>HTTPMethod = ''GET'', ResourcePath = ''/items'', HandlerFuncs = []\<rparr>"
    by (simp add: Add_def getItems_def routeKey_def ToLower_def toLowerByte_def TrimSpace_def
        isSpace_def char_of_def bit_Suc_0_iff)
  have u: "(\<lambda>ev. Inr getItems) [] = (Inr getItems :: string + Request)"
    by simp
  have z: "HandlerFuncs \<lparr>HTTPMethod = ''GET'', ResourcePath = ''/items'',
      HandlerFuncs = ([] :: string list HandlerFunc list)\<rparr> = []"
    by simp
  note s = Serve_zero_handlers [where unmarshal = "\<lambda>ev. Inr getItems" and event = "[]"
      and p = proc0, OF u rt z, THEN conjunct2]
  have e: "(case execHandlerFuncs noContentResponse (\<lparr>Request = getItems, response = None\<rparr>, proc0)
              [rNotFoundHandler ?r]
       of (resp, (hCtx, p')) \<Rightarrow> (resp, p')) =
     (\<lparr>StatusCode = 404, Headers = Some Map.empty,
       Body = [CHR 0x22, CHR ''n'', CHR ''o'', CHR 0x22]\<rparr>,
      \<lparr>logs = [], world = [''nf'']\<rparr>)"
    by (simp add: Add_def SetNotFoundHandler_def traced_def String_def status_def
        encodeString_def encodeByte_def EmptyHeaders_def proc0_def)
  show ?thesis
    by (intro conjI rt trans [OF s e])
qed

section \<open>The headers of a response\<close>




lemma ctxHandler_keeps_headers:
  assumes "\<And>c (p :: 'w proc) (p' :: 'w proc).
      headers_present (c, p) \<Longrightarrow> headers_present (snd (f c), p')"
  shows "keeps_headers (ctxHandler f :: 'w HandlerFunc)"
  unfolding keeps_headers_def
proof (intro allI impI)
  fix s :: "'w hstate"
  assume h: "headers_present s"
  obtain c p where s: "s = (c, p)" by (cases s)
  show "headers_present (snd (ctxHandler f s))"
    using assms [of c p p] h by (simp add: s ctxHandler_def case_prod_beta)
qed

lemma Continue_keeps_headers: "keeps_headers (ctxHandler Continue)"
  by (rule ctxHandler_keeps_headers) (simp add: Continue_def headers_present_def)






section \<open>The body a context method sets\<close>




section \<open>The default not-found handler\<close>

text \<open>
  C6. On a router as \<^verbatim>\<open>NewRouter\<close> makes it, with no route and the default not-found
  handler, a request is answered as follows. When the context is encoded, the text is
  logged and the response has status 404, the empty headers and a body of two bytes, the
  two double quotes that are the JSON encoding of the empty string: the body is not empty.
\<close>

theorem default_notFoundHandler_body:
  "Serve (NewRouter marshalContext) (\<lambda>ev. Inr req) event p =
     (case marshalContext \<lparr>Request = req, response = None\<rparr> of
        Inl err \<Rightarrow>
          (\<lparr>StatusCode = 500, Headers = Some Map.empty, Body = ''Internal Server Error''\<rparr>,
           logPrintf (''[ERROR] lambdaProxy.Handle: error processing function handler: '' @
             ''DumpContext: '' @ err) p)
      | Inr b \<Rightarrow>
          (\<lparr>StatusCode = 404, Headers = Some Map.empty, Body = [CHR 0x22, CHR 0x22]\<rparr>,
           logPrintf (''[DEBUG] Context: '' @ [CHR 0x0A] @ b) p))"
  by (simp add: Serve_def NewRouter_def notFoundHandler_def NoContent_def status_def
      encodeString_def StatusNotFound_def EmptyHeaders_def internalError_def
      StatusInternalServerError_def StatusText500_def split: sum.splits)

section \<open>Accessors and binding\<close>

lemma QueryParam_absent: "rqQueryStringParameters (Request ctx) n = None \<Longrightarrow> QueryParam ctx n = []"
  by (simp add: QueryParam_def)

lemma QueryParam_present:
  "rqQueryStringParameters (Request ctx) n = Some v \<Longrightarrow> QueryParam ctx n = v"
  by (simp add: QueryParam_def)

text \<open>
  \<^verbatim>\<open>Bind\<close> returns the error of the decoder without calling \<^verbatim>\<open>mergo.Map\<close>, and otherwise
  what \<^verbatim>\<open>mergo.Map\<close> makes of the decoded target and the query parameters.
\<close>

lemma Bind_unmarshal_error:
  "unmarshal (rqBody (Request ctx)) m = (Some err, m') \<Longrightarrow>
     Bind unmarshal mergoMap ctx m =
       (Some (OtherError (''lambdaproxy: unable to bind body to struct: '' @ err)), m')"
  by (simp add: Bind_def)

lemma Bind_merged:
  "unmarshal (rqBody (Request ctx)) m = (None, m') \<Longrightarrow>
   mergoMap m' (rqQueryStringParameters (Request ctx)) = (None, m'') \<Longrightarrow>
     Bind unmarshal mergoMap ctx m = (None, m'')"
  by (simp add: Bind_def)

end
